theory Spec2Isabelle
  imports Complex_Main "HOL-Library.Sublist" "HOL-Library.Multiset"
begin

section \<open>Python strings\<close>

text \<open>
  A Python \<open>str\<close> is modelled as a \<open>string\<close>: the list of the bytes of its UTF-8
  encoding. Equality, concatenation, \<open>in\<close>, \<open>join\<close> and \<open>replace\<close> agree on the two.

  \<open>s.lower()\<close> is Python's, not code of this repository, and it is not a map on single
  characters (a capital sigma at the end of a word has its own lower case). It is a
  parameter \<open>to_lower\<close> of every function of the model that calls it, and the theorems
  about all inputs hold for every such map. The map \<open>str_lower\<close> below is what
  \<open>lower\<close> does on ASCII text, the alphabet of every keyword, hint tag and pattern of
  \<open>app_test5.py\<close>; it is the map of the examples, which are ASCII. \<open>str_upper\<close> is
  applied to the five intent names only. The whitespace of \<open>strip\<close> and the classes of
  the pattern are those of ASCII text as well.
\<close>

definition ascii_uppercase :: string where
  "ascii_uppercase = ''ABCDEFGHIJKLMNOPQRSTUVWXYZ''"

definition ascii_lowercase :: string where
  "ascii_lowercase = ''abcdefghijklmnopqrstuvwxyz''"

definition lower_char :: "char \<Rightarrow> char" where
  "lower_char c =
     (case map_of (zip ascii_uppercase ascii_lowercase) c of Some d \<Rightarrow> d | None \<Rightarrow> c)"

definition upper_char :: "char \<Rightarrow> char" where
  "upper_char c =
     (case map_of (zip ascii_lowercase ascii_uppercase) c of Some d \<Rightarrow> d | None \<Rightarrow> c)"

text \<open>\<open>s.lower()\<close> and \<open>s.upper()\<close> on ASCII text.\<close>

definition str_lower :: "string \<Rightarrow> string" where
  "str_lower s = map lower_char s"

definition str_upper :: "string \<Rightarrow> string" where
  "str_upper s = map upper_char s"

text \<open>
  \<open>a in b\<close> on strings: \<open>a\<close> occurs in \<open>b\<close> as a contiguous block. The empty string
  occurs in every string.
\<close>

fun str_in :: "string \<Rightarrow> string \<Rightarrow> bool" where
  "str_in a [] = (a = [])"
| "str_in a (y # ys) = (prefix a (y # ys) \<or> str_in a ys)"

text \<open>\<open>any(w in text for w in words)\<close>.\<close>

definition any_in :: "string list \<Rightarrow> string \<Rightarrow> bool" where
  "any_in words s = list_ex (\<lambda>w. str_in w s) words"

section \<open>Fuzzy matching (\<open>fuzzy_match\<close>, lines 27-56)\<close>

text \<open>
  One entry of the result list, the dictionary
  \<open>{'name': ..., 'score': ..., 'match_type': ...}\<close>. A score is a Python float; the
  model keeps it as a rational, which orders \<open>1.0\<close>, \<open>0.9\<close> and the ratios the way
  the floats are ordered.
\<close>

record match_entry =
  name :: string
  score :: rat
  match_type :: string

text \<open>
  The body of the \<open>for option in options\<close> loop: the entry the option appends to
  \<open>matches\<close>, if any. \<open>ratio a b\<close> stands for
  \<open>SequenceMatcher(None, a, b).ratio()\<close> of Python's \<open>difflib\<close>, which is not code
  of this repository: it is a parameter of the model, as \<open>to_lower\<close> is.
\<close>

definition match_option ::
  "(string \<Rightarrow> string) \<Rightarrow> (string \<Rightarrow> string \<Rightarrow> rat) \<Rightarrow> string \<Rightarrow> rat \<Rightarrow> string
     \<Rightarrow> match_entry option" where
  "match_option to_lower ratio query_lower threshold option =
     (let option_lower = to_lower option in
      if query_lower = option_lower
      then Some \<lparr>name = option, score = 1, match_type = ''exact''\<rparr>
      else if str_in query_lower option_lower \<or> str_in option_lower query_lower
      then Some \<lparr>name = option, score = 9 / 10, match_type = ''contains''\<rparr>
      else if ratio query_lower option_lower \<ge> threshold
      then Some \<lparr>name = option, score = ratio query_lower option_lower,
                  match_type = ''fuzzy''\<rparr>
      else None)"

text \<open>The loop, with the list \<open>matches\<close> it appends to as explicit state.\<close>

fun match_loop ::
  "(string \<Rightarrow> string) \<Rightarrow> (string \<Rightarrow> string \<Rightarrow> rat) \<Rightarrow> string \<Rightarrow> rat \<Rightarrow> string list
     \<Rightarrow> match_entry list \<Rightarrow> match_entry list" where
  "match_loop to_lower ratio query_lower threshold [] matches = matches"
| "match_loop to_lower ratio query_lower threshold (option # options) matches =
     (case match_option to_lower ratio query_lower threshold option of
        None \<Rightarrow> match_loop to_lower ratio query_lower threshold options matches
      | Some m \<Rightarrow> match_loop to_lower ratio query_lower threshold options (matches @ [m]))"

text \<open>
  \<open>xs.sort(key=key, reverse=True)\<close>: CPython reverses the list, sorts it stably in
  ascending key order and reverses the result, which is how the descending sort keeps
  elements with equal keys in their original order. \<open>sort_key\<close> is the stable
  insertion sort of the list library.
\<close>

definition sort_reverse :: "('a \<Rightarrow> 'k::linorder) \<Rightarrow> 'a list \<Rightarrow> 'a list" where
  "sort_reverse key xs = rev (sort_key key (rev xs))"

definition fuzzy_match ::
  "(string \<Rightarrow> string) \<Rightarrow> (string \<Rightarrow> string \<Rightarrow> rat) \<Rightarrow> string \<Rightarrow> string list \<Rightarrow> rat
     \<Rightarrow> match_entry list" where
  "fuzzy_match to_lower ratio query options threshold =
     sort_reverse score (match_loop to_lower ratio (to_lower query) threshold options [])"

text \<open>The call with the default \<open>threshold = 0.6\<close>.\<close>

definition fuzzy_match_default ::
  "(string \<Rightarrow> string) \<Rightarrow> (string \<Rightarrow> string \<Rightarrow> rat) \<Rightarrow> string \<Rightarrow> string list
     \<Rightarrow> match_entry list" where
  "fuzzy_match_default to_lower ratio query options =
     fuzzy_match to_lower ratio query options (6 / 10)"

subsection \<open>The function on an explicit store\<close>

text \<open>
  \<open>fuzzy_match\<close> above gives the value the function returns. What the function does to
  the lists it works on is stated on a store of list objects: an object is named by its
  address, its index in the store. The argument \<open>options\<close> is the address of the caller's
  list; \<open>matches = []\<close> puts a new list at the end of the store; \<open>matches.append\<close> and
  \<open>matches.sort\<close> change that list in place; the function returns its address.
\<close>

datatype pyobj = StrList "string list" | EntryList "match_entry list"

type_synonym store = "pyobj list"

text \<open>
  \<open>matches.append(m)\<close> and \<open>matches.sort(key=..., reverse=True)\<close> on the list at an
  address. The function calls them on its new list of entries only; on a list of
  strings they are left undefined here and change nothing.
\<close>

definition append_entry :: "nat \<Rightarrow> match_entry \<Rightarrow> store \<Rightarrow> store" where
  "append_entry a m s =
     (case s ! a of EntryList ms \<Rightarrow> s[a := EntryList (ms @ [m])] | StrList xs \<Rightarrow> s)"

definition sort_entries :: "nat \<Rightarrow> store \<Rightarrow> store" where
  "sort_entries a s =
     (case s ! a of EntryList ms \<Rightarrow> s[a := EntryList (sort_reverse score ms)] | StrList xs \<Rightarrow> s)"

fun str_list_length :: "pyobj \<Rightarrow> nat" where
  "str_list_length (StrList xs) = length xs"
| "str_list_length (EntryList ms) = 0"

text \<open>
  The \<open>for option in options\<close> loop as Python's list iterator runs it: at every step it
  reads the list at \<open>options\<close> in the current store, and ends when the index \<open>i\<close>
  reaches its length. The argument is a list of strings (\<open>List[str]\<close>); the loop over
  another object is not modelled and ends at once.
\<close>

function store_loop ::
  "(string \<Rightarrow> string) \<Rightarrow> (string \<Rightarrow> string \<Rightarrow> rat) \<Rightarrow> string \<Rightarrow> rat \<Rightarrow> nat \<Rightarrow> nat \<Rightarrow> nat
     \<Rightarrow> store \<Rightarrow> store" where
  "store_loop to_lower ratio query_lower threshold options matches i s =
     (case s ! options of
        EntryList ms \<Rightarrow> s
      | StrList xs \<Rightarrow>
          if i < length xs
          then store_loop to_lower ratio query_lower threshold options matches (Suc i)
                 (case match_option to_lower ratio query_lower threshold (xs ! i) of
                    None \<Rightarrow> s
                  | Some m \<Rightarrow> append_entry matches m s)
          else s)"
  by pat_completeness auto
termination
proof (relation "measure (\<lambda>(to_lower, ratio, query_lower, threshold, options, matches, i, s).
                   str_list_length (s ! options) - i)")
  show "wf (measure (\<lambda>(to_lower, ratio, query_lower, threshold, options, matches, i, s).
                   str_list_length (s ! options) - i))"
    by simp
next
  fix to_lower :: "string \<Rightarrow> string" and ratio :: "string \<Rightarrow> string \<Rightarrow> rat"
    and query_lower :: string and threshold :: rat and options matches i :: nat
    and s :: store and xs :: "string list"
  assume xs: "s ! options = StrList xs" and i: "i < length xs"
  have "(case match_option to_lower ratio query_lower threshold (xs ! i) of
           None \<Rightarrow> s
         | Some m \<Rightarrow> append_entry matches m s) ! options = StrList xs"
    using xs
    by (cases "matches = options")
       (auto simp: append_entry_def split: option.splits pyobj.splits)
  with xs i
  show "((to_lower, ratio, query_lower, threshold, options, matches, Suc i,
          (case match_option to_lower ratio query_lower threshold (xs ! i) of
             None \<Rightarrow> s
           | Some m \<Rightarrow> append_entry matches m s)),
         (to_lower, ratio, query_lower, threshold, options, matches, i, s))
        \<in> measure (\<lambda>(to_lower, ratio, query_lower, threshold, options, matches, i, s).
                      str_list_length (s ! options) - i)"
    by simp
qed

definition fuzzy_match_store ::
  "(string \<Rightarrow> string) \<Rightarrow> (string \<Rightarrow> string \<Rightarrow> rat) \<Rightarrow> string \<Rightarrow> nat \<Rightarrow> rat \<Rightarrow> store
     \<Rightarrow> nat \<times> store" where
  "fuzzy_match_store to_lower ratio query options threshold s =
     (let matches = length s;
          s = s @ [EntryList []];
          query_lower = to_lower query;
          s = store_loop to_lower ratio query_lower threshold options matches 0 s;
          s = sort_entries matches s
      in (matches, s))"

text \<open>
  A stand-in for the similarity measure when the model is run on concrete inputs: every
  pair of strings gets the ratio \<open>r\<close>.
\<close>

definition const_ratio :: "rat \<Rightarrow> string \<Rightarrow> string \<Rightarrow> rat" where
  "const_ratio r a b = r"

section \<open>Schema search (\<open>search_tables_and_columns\<close>, lines 59-109)\<close>

text \<open>
  What \<open>await list_tool.ainvoke({})\<close> returns: a dictionary, with the values under
  its keys \<open>'tables'\<close> and \<open>'columns'\<close> when it has them (lists of names, as
  \<open>fuzzy_match\<close> takes them), or a value of another type.
\<close>

datatype schema_result = SchemaDict "string list option" "string list option" | SchemaOther

text \<open>
  A tool of the session: its name and the outcome of invoking it with no arguments,
  \<open>Inl\<close> the text of the exception it raises.
\<close>

record tool =
  tool_name :: string
  ainvoke :: "string + schema_result"

record search_result =
  tables :: "string list"
  columns :: "string list"
  table_matches :: "match_entry list"
  column_matches :: "match_entry list"

definition empty_result :: search_result where
  "empty_result = \<lparr>tables = [], columns = [], table_matches = [], column_matches = []\<rparr>"

definition schema_keywords :: "string list" where
  "schema_keywords = [''list'', ''get'', ''schema'', ''tables'', ''describe'']"

text \<open>The \<open>for tool in tools\<close> loop with its \<open>break\<close>: the first tool whose name has a keyword.\<close>

definition find_list_tool :: "(string \<Rightarrow> string) \<Rightarrow> tool list \<Rightarrow> tool option" where
  "find_list_tool to_lower tools =
     List.find (\<lambda>tool. any_in schema_keywords (to_lower (tool_name tool))) tools"

text \<open>The inner \<open>try\<close>: an exception of the tool is printed and \<open>result\<close> stays as it was.\<close>

definition fetch_schema :: "tool \<Rightarrow> search_result \<Rightarrow> search_result" where
  "fetch_schema list_tool result =
     (case ainvoke list_tool of
        Inl e \<Rightarrow> result
      | Inr SchemaOther \<Rightarrow> result
      | Inr (SchemaDict ts cs) \<Rightarrow>
          (let result = (case ts of None \<Rightarrow> result | Some v \<Rightarrow> result\<lparr>tables := v\<rparr>)
           in (case cs of None \<Rightarrow> result | Some v \<Rightarrow> result\<lparr>columns := v\<rparr>)))"

text \<open>
  The function. \<open>load_mcp_tools\<close> is the outcome of \<open>await load_mcp_tools(mcp_session)\<close>,
  \<open>Inl\<close> the text of the exception it raises. The result is \<open>Inr\<close> the dictionary
  returned, or \<open>Inl\<close> an exception that reaches the caller. A query is \<open>None\<close> or a
  string, and is true in a condition when it is a non-empty string.
\<close>

definition search_tables_and_columns ::
  "(string \<Rightarrow> string) \<Rightarrow> (string \<Rightarrow> string \<Rightarrow> rat) \<Rightarrow> string + tool list \<Rightarrow> string option
     \<Rightarrow> string option \<Rightarrow> string + search_result" where
  "search_tables_and_columns to_lower ratio load_mcp_tools table_query column_query =
     (let result = empty_result in
      case load_mcp_tools of
        Inl e \<Rightarrow> Inr result
      | Inr tools \<Rightarrow>
          (let result = (case find_list_tool to_lower tools of
                           None \<Rightarrow> result
                         | Some list_tool \<Rightarrow> fetch_schema list_tool result);
               result = (case table_query of
                           None \<Rightarrow> result
                         | Some q \<Rightarrow>
                             if q \<noteq> [] \<and> tables result \<noteq> []
                             then result\<lparr>table_matches :=
                                    fuzzy_match_default to_lower ratio q (tables result)\<rparr>
                             else result);
               result = (case column_query of
                           None \<Rightarrow> result
                         | Some q \<Rightarrow>
                             if q \<noteq> [] \<and> columns result \<noteq> []
                             then result\<lparr>column_matches :=
                                    fuzzy_match_default to_lower ratio q (columns result)\<rparr>
                             else result)
           in Inr result))"

section \<open>Intent (\<open>detect_user_intent\<close>, lines 112-128)\<close>

definition show_keywords :: "string list" where
  "show_keywords = [''show'', ''display'', ''view'', ''get'', ''what is'', ''tell me'', ''give me'']"

definition create_keywords :: "string list" where
  "create_keywords = [''create'', ''add'', ''make'', ''build'', ''new'']"

definition update_keywords :: "string list" where
  "update_keywords = [''update'', ''modify'', ''change'', ''edit'']"

definition delete_keywords :: "string list" where
  "delete_keywords = [''delete'', ''remove'', ''drop'']"

definition detect_user_intent :: "(string \<Rightarrow> string) \<Rightarrow> string \<Rightarrow> string" where
  "detect_user_intent to_lower user_input =
     (let lower = to_lower user_input in
      if any_in show_keywords lower then ''show''
      else if any_in create_keywords lower then ''create''
      else if any_in update_keywords lower then ''update''
      else if any_in delete_keywords lower then ''delete''
      else ''unknown'')"

section \<open>Measure requests (\<open>parse_measure_request\<close>, lines 131-153)\<close>

record measure_request =
  operation :: "string option"
  table :: "string option"
  column :: "string option"
  has_explicit_syntax :: bool

text \<open>The \<open>if\<close>/\<open>elif\<close> chain that sets \<open>op\<close>, on the lower-cased input.\<close>

definition detect_operation :: "string \<Rightarrow> string option" where
  "detect_operation lower =
     (if any_in [''total'', ''sum''] lower then Some ''SUM''
      else if any_in [''average'', ''avg'', ''mean''] lower then Some ''AVERAGE''
      else if any_in [''count'', ''number''] lower then Some ''COUNT''
      else if any_in [''unique'', ''distinct''] lower then Some ''DISTINCTCOUNT''
      else if any_in [''min'', ''minimum''] lower then Some ''MIN''
      else if any_in [''max'', ''maximum''] lower then Some ''MAX''
      else None)"

text \<open>The character classes \<open>\w\<close> and \<open>[A-Za-z_]\<close> of the pattern.\<close>

definition is_word_char :: "char \<Rightarrow> bool" where
  "is_word_char c = (c \<in> set (ascii_lowercase @ ascii_uppercase @ ''0123456789_''))"

definition is_ident_start :: "char \<Rightarrow> bool" where
  "is_ident_start c = (c \<in> set (ascii_lowercase @ ascii_uppercase @ ''_''))"

text \<open>
  A match of \<open>([A-Za-z_]\w*)\[(\w+)\]\<close> that starts at the head of the string: the two
  groups. Each repetition is greedy, and a shorter repetition cannot match, as the
  character after it would have to be a bracket and a word character at once; so the
  longest run of word characters is the only candidate.
\<close>

definition match_here :: "string \<Rightarrow> (string \<times> string) option" where
  "match_here s =
     (case s of
        [] \<Rightarrow> None
      | c # cs \<Rightarrow>
          if \<not> is_ident_start c then None
          else
            (case dropWhile is_word_char cs of
               [] \<Rightarrow> None
             | b # rest \<Rightarrow>
                 if b \<noteq> CHR ''[''  \<or> takeWhile is_word_char rest = [] then None
                 else
                   (case dropWhile is_word_char rest of
                      [] \<Rightarrow> None
                    | e # _ \<Rightarrow>
                        if e = CHR '']''
                        then Some (c # takeWhile is_word_char cs, takeWhile is_word_char rest)
                        else None)))"

text \<open>\<open>re.search\<close>: the match at the leftmost position that has one.\<close>

fun re_search :: "string \<Rightarrow> (string \<times> string) option" where
  "re_search [] = None"
| "re_search (c # cs) =
     (case match_here (c # cs) of Some groups \<Rightarrow> Some groups | None \<Rightarrow> re_search cs)"

definition parse_measure_request :: "(string \<Rightarrow> string) \<Rightarrow> string \<Rightarrow> measure_request" where
  "parse_measure_request to_lower user_input =
     (let lower = to_lower user_input;
          op = detect_operation lower;
          found = re_search user_input
      in \<lparr>operation = op,
          table = map_option fst found,
          column = map_option snd found,
          has_explicit_syntax = (found \<noteq> None)\<rparr>)"

section \<open>The agent call (\<open>run_agent_once\<close>, lines 1864-1959)\<close>

text \<open>\<open>sep.join(xs)\<close>, \<open>s.strip()\<close> and \<open>s.replace(old, new)\<close>.\<close>

fun str_join :: "string \<Rightarrow> string list \<Rightarrow> string" where
  "str_join sep [] = []"
| "str_join sep [x] = x"
| "str_join sep (x # y # ys) = x @ sep @ str_join sep (y # ys)"

definition is_space :: "char \<Rightarrow> bool" where
  "is_space c =
     (c \<in> set [CHR 0x09, CHR 0x0A, CHR 0x0B, CHR 0x0C, CHR 0x0D,
               CHR 0x1C, CHR 0x1D, CHR 0x1E, CHR 0x1F, CHR 0x20])"

definition str_strip :: "string \<Rightarrow> string" where
  "str_strip s = rev (dropWhile is_space (rev (dropWhile is_space s)))"

text \<open>The scan for a non-empty \<open>old\<close>: occurrences are replaced from left to right and do not overlap.\<close>

function replace_scan :: "string \<Rightarrow> string \<Rightarrow> string \<Rightarrow> string" where
  "replace_scan old new [] = []"
| "replace_scan old new (c # cs) =
     (if old \<noteq> [] \<and> prefix old (c # cs)
      then new @ replace_scan old new (drop (length old) (c # cs))
      else c # replace_scan old new cs)"
  by pat_completeness auto
termination
  by (relation "measure (\<lambda>(old, new, s). length s)") (auto simp: neq_Nil_conv)

text \<open>An empty \<open>old\<close> matches before every character and at the end.\<close>

definition str_replace :: "string \<Rightarrow> string \<Rightarrow> string \<Rightarrow> string" where
  "str_replace old new s =
     (if old = [] then new @ concat (map (\<lambda>c. c # new) s) else replace_scan old new s)"

definition newline :: string where
  "newline = [CHR 0x0A]"

text \<open>The hint tags of the request, in the order the function appends them.\<close>

definition build_hints :: "(string \<Rightarrow> string) \<Rightarrow> string \<Rightarrow> string list" where
  "build_hints to_lower user_input =
     (let intent = detect_user_intent to_lower user_input;
          info = parse_measure_request to_lower user_input;
          hints = [];
          hints = (if intent \<noteq> ''unknown''
                   then hints @ [''[Intent: '' @ str_upper intent @ '']'']
                   else hints);
          hints = (case operation info of
                     Some op \<Rightarrow> hints @ [''[Operation: '' @ op @ '']'']
                   | None \<Rightarrow> hints);
          hints = (if has_explicit_syntax info
                   then hints @
                     [''[Explicit: '' @ (case table info of Some t \<Rightarrow> t | None \<Rightarrow> ''None'')
                        @ ''['' @ (case column info of Some c \<Rightarrow> c | None \<Rightarrow> ''None'')
                        @ '']]'',
                      ''[High confidence - execute directly]'']
                   else hints @ [''[Search for table/column names before asking user]''])
      in hints)"

definition enhanced_input :: "(string \<Rightarrow> string) \<Rightarrow> string \<Rightarrow> string" where
  "enhanced_input to_lower user_input =
     user_input @ newline @ str_join '' '' (build_hints to_lower user_input)"

text \<open>
  A message of the agent's answer: the name of its class and its \<open>content\<close> attribute,
  when it has one. The content is a string, a list of items, or a value of another
  type. An item is a dictionary (the string under its key \<open>'text'\<close>, when it has the
  key, and the text \<open>str\<close> gives for the dictionary), a string, or a value of another
  type (the text \<open>str\<close> gives for it).
\<close>

datatype content_item = DictItem "string option" string | StrItem string | OtherItem string

datatype content = StrContent string | ListContent "content_item list" | OtherContent

record message =
  type_name :: string
  content :: "content option"

text \<open>The two marks of the messages, as their UTF-8 bytes.\<close>

definition check_mark :: string where
  "check_mark = [CHR 0xE2, CHR 0x9C, CHR 0x93]"

definition cross_mark :: string where
  "cross_mark = [CHR 0xE2, CHR 0x9D, CHR 0x8C]"

definition success_placeholder :: string where
  "success_placeholder = check_mark @ '' Operation completed successfully.''"

definition no_response :: string where
  "no_response = ''No response received.''"

text \<open>The text of the \<open>AttributeError\<close> for a message with no \<open>content\<close>.\<close>

definition attribute_error :: "string \<Rightarrow> string" where
  "attribute_error cls =
     [CHR 0x27] @ cls @ [CHR 0x27] @ '' object has no attribute '' @ [CHR 0x27] @ ''content''
       @ [CHR 0x27]"

text \<open>\<open>for hint in hints: cleaned = cleaned.replace(hint, "")\<close>.\<close>

definition clean_hints :: "string list \<Rightarrow> string \<Rightarrow> string" where
  "clean_hints hints s = foldl (\<lambda>cleaned hint. str_replace hint [] cleaned) s hints"

text \<open>What an item adds to \<open>texts\<close>, if anything.\<close>

fun item_text :: "content_item \<Rightarrow> string option" where
  "item_text (DictItem (Some t) d) = Some t"
| "item_text (DictItem None d) = None"
| "item_text (StrItem s) = Some s"
| "item_text (OtherItem s) = None"

text \<open>
  The loop over \<open>reversed(all_messages)\<close>, on the reversed list: \<open>Some (Inr s)\<close> when it
  returns \<open>s\<close>, \<open>Some (Inl e)\<close> when it raises, \<open>None\<close> when it ends without returning.
\<close>

fun scan_messages :: "string list \<Rightarrow> message list \<Rightarrow> (string + string) option" where
  "scan_messages hints [] = None"
| "scan_messages hints (msg # msgs) =
     (if type_name msg \<in> set [''AIMessage'', ''AssistantMessage'']
      then
        (case content msg of
           None \<Rightarrow> Some (Inl (attribute_error (type_name msg)))
         | Some (StrContent c) \<Rightarrow>
             if str_strip c \<noteq> [] then Some (Inr (str_strip (clean_hints hints c)))
             else scan_messages hints msgs
         | Some (ListContent items) \<Rightarrow>
             (let texts = List.map_filter item_text items in
              if texts \<noteq> []
              then Some (Inr (str_strip (clean_hints hints
                     (str_join newline (filter (\<lambda>t. str_strip t \<noteq> []) texts)))))
              else scan_messages hints msgs)
         | Some OtherContent \<Rightarrow> scan_messages hints msgs)
      else scan_messages hints msgs)"

text \<open>The text of an item in the fallback: \<open>str(item.get('text', item))\<close> or \<open>str(item)\<close>.\<close>

fun item_str :: "content_item \<Rightarrow> string" where
  "item_str (DictItem (Some t) d) = t"
| "item_str (DictItem None d) = d"
| "item_str (StrItem s) = s"
| "item_str (OtherItem s) = s"

text \<open>The fallback on the last message.\<close>

definition fallback :: "message \<Rightarrow> string" where
  "fallback last_msg =
     (case content last_msg of
        None \<Rightarrow> success_placeholder
      | Some (StrContent c) \<Rightarrow> if str_strip c \<noteq> [] then c else success_placeholder
      | Some (ListContent items) \<Rightarrow>
          (let text = str_join '' '' (map item_str items) in
           if str_strip text \<noteq> [] then text else success_placeholder)
      | Some OtherContent \<Rightarrow> success_placeholder)"

text \<open>The \<open># Extract response\<close> part of the \<open>try\<close> block.\<close>

definition extract_response :: "string list \<Rightarrow> message list \<Rightarrow> string + string" where
  "extract_response hints all_messages =
     (if all_messages = [] then Inr no_response
      else
        (case scan_messages hints (rev all_messages) of
           Some r \<Rightarrow> r
         | None \<Rightarrow> Inr (fallback (last all_messages))))"

definition not_found_message :: string where
  "not_found_message = cross_mark @
     '' Table/column not found. Please verify the exact name in your Power BI model.''"

definition syntax_message :: string where
  "syntax_message = cross_mark @ '' DAX syntax error. Please check the formula.''"

definition too_long_message :: string where
  "too_long_message = cross_mark @
     '' Request too long. Please simplify or break into smaller parts.''"

text \<open>The \<open>except Exception as e\<close> block, on \<open>str(e)\<close>.\<close>

definition handle_exception :: "(string \<Rightarrow> string) \<Rightarrow> string \<Rightarrow> string" where
  "handle_exception to_lower e =
     (let error = to_lower e in
      if str_in ''not found'' error \<or> str_in ''does not exist'' error then not_found_message
      else if str_in ''syntax'' error then syntax_message
      else if str_in ''context'' error \<or> str_in ''token'' error then too_long_message
      else cross_mark @ '' Error: '' @ e)"

text \<open>
  The function. \<open>agent\<close> is the outcome of \<open>await agent.ainvoke(...)\<close> for the enhanced
  input: \<open>Inl\<close> the text of the exception it raises, \<open>Inr\<close> the list under
  \<open>"messages"\<close> of its result (empty when the key is missing).
\<close>

definition run_agent_once ::
  "(string \<Rightarrow> string) \<Rightarrow> (string \<Rightarrow> string + message list) \<Rightarrow> string \<Rightarrow> string" where
  "run_agent_once to_lower agent user_input =
     (let hints = build_hints to_lower user_input in
      case agent (enhanced_input to_lower user_input) of
        Inl e \<Rightarrow> handle_exception to_lower e
      | Inr all_messages \<Rightarrow>
          (case extract_response hints all_messages of
             Inl e \<Rightarrow> handle_exception to_lower e
           | Inr response \<Rightarrow> response))"

text \<open>
  An agent that answers with the conversation as it received it: the human message
  with the enhanced input, and nothing after it.
\<close>

definition echo_agent :: "string \<Rightarrow> string + message list" where
  "echo_agent prompt = Inr [\<lparr>type_name = ''HumanMessage'', content = Some (StrContent prompt)\<rparr>]"

text \<open>An agent whose invocation raises an exception with the text \<open>e\<close>.\<close>

definition failing_agent :: "string \<Rightarrow> string \<Rightarrow> string + message list" where
  "failing_agent e prompt = Inl e"

section \<open>Properties of the string operations\<close>

lemma str_in_sublist: "str_in a b \<longleftrightarrow> sublist a b"
  by (induction b) (auto simp: sublist_Cons_right)

section \<open>Properties of \<open>fuzzy_match\<close>\<close>

text \<open>The loop appends, in the order of the options, the entry of each option that has one.\<close>

lemma match_loop_append:
  "match_loop to_lower R ql t opts ms = ms @ List.map_filter (match_option to_lower R ql t) opts"
  by (induction opts arbitrary: ms) (auto simp: List.map_filter_simps split: option.splits)

lemma fuzzy_match_unsorted:
  "fuzzy_match to_lower R q opts t = sort_reverse score (List.map_filter (match_option to_lower R (to_lower q) t) opts)"
  by (simp add: fuzzy_match_def match_loop_append)

text \<open>The descending sort: a permutation, in non-increasing key order, stable.\<close>

lemma mset_sort_reverse: "mset (sort_reverse k xs) = mset xs"
  by (simp add: sort_reverse_def)

lemma length_sort_reverse: "length (sort_reverse k xs) = length xs"
  by (simp add: sort_reverse_def)

lemma set_sort_reverse: "set (sort_reverse k xs) = set xs"
  by (simp add: sort_reverse_def)

lemma sort_reverse_descending: "sorted_wrt (\<lambda>a b. k a \<ge> k b) (sort_reverse k xs)"
proof -
  have "sorted (map k (sort_key k (rev xs)))" by simp
  then have "sorted_wrt (\<lambda>a b. k a \<le> k b) (sort_key k (rev xs))"
    by (simp add: sorted_wrt_map)
  then show ?thesis
    by (simp add: sort_reverse_def sorted_wrt_rev)
qed

lemma sort_reverse_stable:
  "filter (\<lambda>y. k y = c) (sort_reverse k xs) = filter (\<lambda>y. k y = c) xs"
proof -
  have "filter (\<lambda>y. k y = c) (sort_reverse k xs) = rev (filter (\<lambda>y. k y = c) (sort_key k (rev xs)))"
    by (simp add: sort_reverse_def rev_filter)
  also have "\<dots> = rev (filter (\<lambda>y. k y = c) (rev xs))"
    by (simp only: sort_key_stable)
  also have "\<dots> = filter (\<lambda>y. k y = c) xs"
    by (simp add: rev_filter)
  finally show ?thesis .
qed

lemma descending_two_keys:
  fixes k :: "'a \<Rightarrow> 'k::linorder"
  shows "sorted_wrt (\<lambda>a b. k a \<ge> k b) ys \<Longrightarrow> \<forall>y \<in> set ys. k y = hi \<or> k y = lo \<Longrightarrow> lo < hi \<Longrightarrow>
   filter (\<lambda>y. k y = hi) ys @ filter (\<lambda>y. k y = lo) ys = ys"
proof (induction ys)
  case Nil
  then show ?case by simp
next
  case (Cons y ys)
  from Cons.prems have sorted_ys: "sorted_wrt (\<lambda>a b. k a \<ge> k b) ys"
    and keys_ys: "\<forall>z \<in> set ys. k z = hi \<or> k z = lo"
    and below: "\<forall>z \<in> set ys. k z \<le> k y"
    by simp_all
  from Cons.IH [OF sorted_ys keys_ys Cons.prems(3)]
  have IH: "filter (\<lambda>y. k y = hi) ys @ filter (\<lambda>y. k y = lo) ys = ys" .
  show ?case
  proof (cases "k y = hi")
    case True
    with Cons.prems(3) have "k y \<noteq> lo" by auto
    with True IH show ?thesis by simp
  next
    case False
    with Cons.prems(2) have lo: "k y = lo" by simp
    have all_lo: "\<forall>z \<in> set ys. k z = lo"
    proof
      fix z assume z: "z \<in> set ys"
      with below lo have "k z \<le> lo" by simp
      moreover from keys_ys z have "k z = hi \<or> k z = lo" by simp
      ultimately show "k z = lo" using Cons.prems(3) by auto
    qed
    then have no_hi: "filter (\<lambda>y. k y = hi) ys = []"
      using Cons.prems(3) by (auto simp: filter_empty_conv)
    from all_lo have "filter (\<lambda>y. k y = lo) ys = ys"
      by (simp add: filter_id_conv)
    with no_hi lo False show ?thesis by simp
  qed
qed

lemma sort_reverse_two_keys:
  fixes k :: "'a \<Rightarrow> 'k::linorder"
  assumes "\<forall>y \<in> set xs. k y = hi \<or> k y = lo" "lo < hi"
  shows "sort_reverse k xs = filter (\<lambda>y. k y = hi) xs @ filter (\<lambda>y. k y = lo) xs"
proof -
  have "filter (\<lambda>y. k y = hi) (sort_reverse k xs) @ filter (\<lambda>y. k y = lo) (sort_reverse k xs)
          = sort_reverse k xs"
    using assms by (intro descending_two_keys sort_reverse_descending) (simp_all add: set_sort_reverse)
  then show ?thesis by (simp only: sort_reverse_stable)
qed


text \<open>The equations that run the model on a concrete input.\<close>

lemmas str_eval =
  str_lower_def str_upper_def lower_char_def upper_char_def ascii_uppercase_def
  ascii_lowercase_def any_in_def

lemmas fuzzy_eval =
  fuzzy_match_def fuzzy_match_default_def sort_reverse_def match_option_def const_ratio_def

lemma str_in_Nil: "str_in [] s"
  by (cases s) simp_all

lemma str_lower_Nil_iff: "str_lower s = [] \<longleftrightarrow> s = []"
  by (simp add: str_lower_def)

lemma str_lower_Nil: "str_lower [] = []"
  by (simp add: str_lower_def)

lemma match_option_name: "match_option to_lower R ql t c = Some m \<Longrightarrow> name m = c"
  by (auto simp: match_option_def Let_def split: if_splits)

lemma match_option_criterion:
  "match_option to_lower R ql t c \<noteq> None \<longleftrightarrow>
     ql = to_lower c \<or> str_in ql (to_lower c) \<or> str_in (to_lower c) ql \<or> t \<le> R ql (to_lower c)"
  by (auto simp: match_option_def Let_def)

lemma length_map_filter_eq:
  "length (List.map_filter f xs) = length (filter (\<lambda>x. f x \<noteq> None) xs)"
  by (induction xs) (auto simp: List.map_filter_simps split: option.splits)

lemma names_in_input_order:
  "map name (List.map_filter (match_option to_lower R ql t) opts) = filter (\<lambda>c. match_option to_lower R ql t c \<noteq> None) opts"
  by (induction opts) (auto simp: List.map_filter_simps match_option_name split: option.splits)

lemma names_with_score:
  "map name (filter (\<lambda>m. score m = k) (List.map_filter (match_option to_lower R ql t) opts))
     = filter (\<lambda>c. map_option score (match_option to_lower R ql t c) = Some k) opts"
  by (induction opts) (auto simp: List.map_filter_simps match_option_name split: option.splits)

text \<open>The length of the result: the number of candidates that meet a criterion.\<close>

lemma fuzzy_match_length:
  "length (fuzzy_match to_lower ratio query options threshold)
     = length [c \<leftarrow> options.
         to_lower query = to_lower c \<or> str_in (to_lower query) (to_lower c)
         \<or> str_in (to_lower c) (to_lower query)
         \<or> threshold \<le> ratio (to_lower query) (to_lower c)]
   \<and> length (fuzzy_match to_lower ratio query options threshold) \<le> length options"
proof -
  have "length (fuzzy_match to_lower ratio query options threshold)
      = length (filter (\<lambda>c. match_option to_lower ratio (to_lower query) threshold c \<noteq> None)
          options)"
    by (simp add: fuzzy_match_unsorted length_sort_reverse length_map_filter_eq)
  then show ?thesis
    unfolding match_option_criterion by simp
qed

text \<open>
  On the store: an append changes the list of entries at its address and no other
  object, and the loop appends to the list at \<open>matches\<close> the entries of the options
  from the index \<open>i\<close> on.
\<close>

lemma append_entry_at:
  "a < length s \<Longrightarrow> s ! a = EntryList ms \<Longrightarrow> append_entry a m s = s[a := EntryList (ms @ [m])]"
  by (simp add: append_entry_def)

lemma store_loop_appends:
  assumes "s ! options = StrList xs" and "matches < length s" and "s ! matches = EntryList ms"
  shows "store_loop to_lower ratio ql threshold options matches i s
           = s[matches := EntryList
                 (ms @ List.map_filter (match_option to_lower ratio ql threshold) (drop i xs))]"
  using assms
proof (induction "length xs - i" arbitrary: i s ms)
  case 0
  then have ended: "\<not> i < length xs" by simp
  from ended have "store_loop to_lower ratio ql threshold options matches i s = s"
    using "0.prems"(1) by (subst store_loop.simps) simp
  moreover from ended have "drop i xs = []" by simp
  moreover have "s[matches := EntryList ms] = s"
    using "0.prems"(3) by (metis list_update_id)
  ultimately show ?case
    by (simp add: List.map_filter_simps)
next
  case (Suc n)
  then have run: "i < length xs" by simp
  from Suc.prems have differ: "matches \<noteq> options" by auto
  let ?s = "case match_option to_lower ratio ql threshold (xs ! i) of
              None \<Rightarrow> s
            | Some m \<Rightarrow> append_entry matches m s"
  have step: "store_loop to_lower ratio ql threshold options matches i s
                = store_loop to_lower ratio ql threshold options matches (Suc i) ?s"
    using Suc.prems(1) run by (subst store_loop.simps) simp
  have tail: "drop i xs = xs ! i # drop (Suc i) xs"
    using run by (simp add: Cons_nth_drop_Suc)
  from Suc.hyps(2) run have n: "n = length xs - Suc i" by simp
  show ?case
  proof (cases "match_option to_lower ratio ql threshold (xs ! i)")
    case None
    with step have "store_loop to_lower ratio ql threshold options matches i s
                      = store_loop to_lower ratio ql threshold options matches (Suc i) s"
      by simp
    also have "\<dots> = s[matches := EntryList
                 (ms @ List.map_filter (match_option to_lower ratio ql threshold)
                         (drop (Suc i) xs))]"
      using Suc.hyps(1) [OF n Suc.prems] .
    finally show ?thesis
      using None by (simp add: tail List.map_filter_simps)
  next
    case (Some m)
    let ?t = "s[matches := EntryList (ms @ [m])]"
    have t: "append_entry matches m s = ?t"
      using Suc.prems(2,3) by (rule append_entry_at)
    have t_options: "?t ! options = StrList xs"
      using differ Suc.prems(1) by simp
    have t_matches: "matches < length ?t" "?t ! matches = EntryList (ms @ [m])"
      using Suc.prems(2) by simp_all
    from step Some t
    have "store_loop to_lower ratio ql threshold options matches i s
            = store_loop to_lower ratio ql threshold options matches (Suc i) ?t"
      by simp
    also have "\<dots> = ?t[matches := EntryList
                 ((ms @ [m]) @ List.map_filter (match_option to_lower ratio ql threshold)
                                 (drop (Suc i) xs))]"
      using Suc.hyps(1) [OF n t_options t_matches] .
    finally show ?thesis
      using Some by (simp add: tail List.map_filter_simps)
  qed
qed

text \<open>
  Claim C5. For every query, threshold and store in which \<open>options\<close> is the address of
  the list of candidates, the call returns the address of a new list, the last object
  of the store, and leaves every object the store had as it was: the list of candidates
  is unchanged. The new list is the result \<open>fuzzy_match\<close> gives for the candidates; it
  has one entry for each candidate that meets the exact, the contains or the threshold
  criterion and no other entry, so its length is the number of such candidates and at
  most the length of the candidate list.
\<close>

theorem fuzzy_match_store_frame:
  assumes "options < length s" and "s ! options = StrList candidates"
  shows "fuzzy_match_store to_lower ratio query options threshold s
           = (length s, s @ [EntryList (fuzzy_match to_lower ratio query candidates threshold)])
   \<and> snd (fuzzy_match_store to_lower ratio query options threshold s) ! options
       = StrList candidates
   \<and> take (length s) (snd (fuzzy_match_store to_lower ratio query options threshold s)) = s
   \<and> length (fuzzy_match to_lower ratio query candidates threshold)
       = length [c \<leftarrow> candidates.
           to_lower query = to_lower c \<or> str_in (to_lower query) (to_lower c)
           \<or> str_in (to_lower c) (to_lower query)
           \<or> threshold \<le> ratio (to_lower query) (to_lower c)]
   \<and> length (fuzzy_match to_lower ratio query candidates threshold) \<le> length candidates"
proof -
  let ?s = "s @ [EntryList []]"
  let ?collected = "List.map_filter (match_option to_lower ratio (to_lower query) threshold)
                      candidates"
  have s_options: "?s ! options = StrList candidates"
    using assms by (simp add: nth_append)
  have s_matches: "length s < length ?s" "?s ! length s = EntryList []"
    by simp_all
  have "store_loop to_lower ratio (to_lower query) threshold options (length s) 0 ?s
          = ?s[length s := EntryList ([] @ List.map_filter
                 (match_option to_lower ratio (to_lower query) threshold) (drop 0 candidates))]"
    using s_options s_matches by (rule store_loop_appends)
  then have looped: "store_loop to_lower ratio (to_lower query) threshold options (length s) 0 ?s
          = s @ [EntryList ?collected]"
    by simp
  have "sort_entries (length s) (s @ [EntryList ?collected])
          = s @ [EntryList (sort_reverse score ?collected)]"
    by (simp add: sort_entries_def)
  with looped
  have run: "fuzzy_match_store to_lower ratio query options threshold s
           = (length s, s @ [EntryList (fuzzy_match to_lower ratio query candidates threshold)])"
    by (simp add: fuzzy_match_store_def Let_def fuzzy_match_unsorted)
  from run assms
  have kept: "snd (fuzzy_match_store to_lower ratio query options threshold s) ! options
                = StrList candidates"
    by (simp add: nth_append)
  from run
  have frame: "take (length s) (snd (fuzzy_match_store to_lower ratio query options threshold s))
                 = s"
    by simp
  from run kept frame fuzzy_match_length [of to_lower ratio query candidates threshold]
  show ?thesis by blast
qed

theorem fuzzy_match_store_frame_witness:
  "fuzzy_match_store str_lower (const_ratio (1 / 2)) ''sale'' 0 (6 / 10)
     [StrList [''Sales'', ''Sale'', ''xyz''],
      EntryList [\<lparr>name = ''Tax'', score = 1, match_type = ''exact''\<rparr>]]
     = (2, [StrList [''Sales'', ''Sale'', ''xyz''],
            EntryList [\<lparr>name = ''Tax'', score = 1, match_type = ''exact''\<rparr>],
            EntryList [\<lparr>name = ''Sale'', score = 1, match_type = ''exact''\<rparr>,
                       \<lparr>name = ''Sales'', score = 9 / 10, match_type = ''contains''\<rparr>]])
   \<and> length (fuzzy_match str_lower (const_ratio (1 / 2)) ''sale'' [''Sales'', ''Sale'', ''xyz'']
        (6 / 10)) = 2"
proof -
  let ?s = "[StrList [''Sales'', ''Sale'', ''xyz''],
             EntryList [\<lparr>name = ''Tax'', score = 1, match_type = ''exact''\<rparr>]]"
  have at: "0 < length ?s" and holds: "?s ! 0 = StrList [''Sales'', ''Sale'', ''xyz'']"
    by simp_all
  have e: "fuzzy_match str_lower (const_ratio (1 / 2)) ''sale'' [''Sales'', ''Sale'', ''xyz''] (6 / 10)
             = [\<lparr>name = ''Sale'', score = 1, match_type = ''exact''\<rparr>,
                \<lparr>name = ''Sales'', score = 9 / 10, match_type = ''contains''\<rparr>]"
    by (simp add: fuzzy_eval str_eval)
  from fuzzy_match_store_frame
         [of 0 ?s "[''Sales'', ''Sale'', ''xyz'']" str_lower "const_ratio (1 / 2)" "''sale''" "6 / 10",
          OF at holds]
  show ?thesis unfolding e by simp
qed

text \<open>
  Claim C10. The names of the result entries, with their multiplicities, are among the
  candidates with theirs: every name is a candidate as it was given (in its original
  case, not the lower-cased copy), and a candidate that occurs \<open>n\<close> times in the input
  is the name of at most \<open>n\<close> entries.
\<close>
theorem fuzzy_match_names:
  "mset (map name (fuzzy_match to_lower ratio query options threshold)) \<subseteq># mset options
   \<and> set (map name (fuzzy_match to_lower ratio query options threshold)) \<subseteq> set options"
proof -
  let ?keep = "\<lambda>c. match_option to_lower ratio (to_lower query) threshold c \<noteq> None"
  have "mset (map name (fuzzy_match to_lower ratio query options threshold))
      = image_mset name (mset (List.map_filter (match_option to_lower ratio (to_lower query) threshold) options))"
    by (simp add: fuzzy_match_unsorted mset_sort_reverse)
  also have "\<dots> = mset (filter ?keep options)"
    using names_in_input_order [of to_lower ratio "to_lower query" threshold options]
    by (metis mset_map)
  finally have m: "mset (map name (fuzzy_match to_lower ratio query options threshold)) = mset (filter ?keep options)" .
  then have "mset (map name (fuzzy_match to_lower ratio query options threshold)) \<subseteq># mset options"
    by simp
  moreover from m have "set (map name (fuzzy_match to_lower ratio query options threshold)) = set (filter ?keep options)"
    by (rule mset_eq_setD)
  ultimately show ?thesis by auto
qed

theorem fuzzy_match_names_witness:
  "map name (fuzzy_match str_lower (const_ratio 0) ''sales'' [''Sales'', ''Tax'', ''SALES''] (6 / 10))
     = [''Sales'', ''SALES'']
   \<and> mset [''Sales'', ''SALES''] \<subseteq># mset [''Sales'', ''Tax'', ''SALES'']"
proof -
  have e: "map name (fuzzy_match str_lower (const_ratio 0) ''sales'' [''Sales'', ''Tax'', ''SALES''] (6 / 10))
     = [''Sales'', ''SALES'']"
    by (simp add: fuzzy_eval str_eval)
  from fuzzy_match_names [of str_lower "const_ratio 0" "''sales''" "[''Sales'', ''Tax'', ''SALES'']" "6 / 10"]
  show ?thesis unfolding e by simp
qed

text \<open>
  Claim C4. For every query, candidate list and threshold, the result is in
  non-increasing order of score, and for every score \<open>k\<close> the entries with that score
  are, in the order of the result, the candidates that score \<open>k\<close> in the order of the
  input list. The result is a function of the input, so a repeated call returns the
  same list.
\<close>
theorem fuzzy_match_sorted_stable:
  "sorted_wrt (\<lambda>a b. score a \<ge> score b) (fuzzy_match to_lower ratio query options threshold)
   \<and> map name [m \<leftarrow> fuzzy_match to_lower ratio query options threshold. score m = k]
       = [c \<leftarrow> options. map_option score (match_option to_lower ratio (to_lower query) threshold c) = Some k]"
  by (simp add: fuzzy_match_unsorted sort_reverse_descending sort_reverse_stable names_with_score)

theorem fuzzy_match_sorted_stable_witness:
  "fuzzy_match str_lower (const_ratio (3 / 4)) ''sale'' [''Sales'', ''Sale'', ''abc'', ''Wholesale'', ''xyz''] (6 / 10)
     = [\<lparr>name = ''Sale'', score = 1, match_type = ''exact''\<rparr>,
        \<lparr>name = ''Sales'', score = 9 / 10, match_type = ''contains''\<rparr>,
        \<lparr>name = ''Wholesale'', score = 9 / 10, match_type = ''contains''\<rparr>,
        \<lparr>name = ''abc'', score = 3 / 4, match_type = ''fuzzy''\<rparr>,
        \<lparr>name = ''xyz'', score = 3 / 4, match_type = ''fuzzy''\<rparr>]
   \<and> sorted_wrt (\<lambda>a b. score a \<ge> score b)
       (fuzzy_match str_lower (const_ratio (3 / 4)) ''sale'' [''Sales'', ''Sale'', ''abc'', ''Wholesale'', ''xyz''] (6 / 10))
   \<and> map name [m \<leftarrow> fuzzy_match str_lower (const_ratio (3 / 4)) ''sale''
                      [''Sales'', ''Sale'', ''abc'', ''Wholesale'', ''xyz''] (6 / 10). score m = 9 / 10]
       = [''Sales'', ''Wholesale'']"
proof -
  have e: "fuzzy_match str_lower (const_ratio (3 / 4)) ''sale'' [''Sales'', ''Sale'', ''abc'', ''Wholesale'', ''xyz''] (6 / 10)
     = [\<lparr>name = ''Sale'', score = 1, match_type = ''exact''\<rparr>,
        \<lparr>name = ''Sales'', score = 9 / 10, match_type = ''contains''\<rparr>,
        \<lparr>name = ''Wholesale'', score = 9 / 10, match_type = ''contains''\<rparr>,
        \<lparr>name = ''abc'', score = 3 / 4, match_type = ''fuzzy''\<rparr>,
        \<lparr>name = ''xyz'', score = 3 / 4, match_type = ''fuzzy''\<rparr>]"
    by (simp add: fuzzy_eval str_eval)
  from fuzzy_match_sorted_stable
    [of str_lower "const_ratio (3 / 4)" "''sale''" "[''Sales'', ''Sale'', ''abc'', ''Wholesale'', ''xyz'']"
        "6 / 10" "9 / 10"]
  show ?thesis unfolding e by simp
qed

text \<open>With an empty query every option has an entry: the empty string occurs in every string.\<close>

lemma match_option_empty_query:
  assumes "to_lower [] = []"
    and "\<And>s. to_lower s = [] \<Longrightarrow> s = []"
  shows "match_option to_lower R [] t c =
     Some (if c = [] then \<lparr>name = c, score = 1, match_type = ''exact''\<rparr>
           else \<lparr>name = c, score = 9 / 10, match_type = ''contains''\<rparr>)"
proof (cases "c = []")
  case True
  with assms(1) show ?thesis
    by (simp add: match_option_def Let_def str_in_Nil)
next
  case False
  with assms(2) have "to_lower c \<noteq> []" by blast
  then have "[] \<noteq> to_lower c" by simp
  with False show ?thesis
    by (simp add: match_option_def Let_def str_in_Nil)
qed

lemma map_filter_Some: "List.map_filter (\<lambda>x. Some (f x)) xs = map f xs"
  by (induction xs) (simp_all add: List.map_filter_simps)

text \<open>
  Claim C1, as amended. For every candidate list, similarity measure and threshold, an
  empty query returns one entry for each candidate: an exact entry with score 1 for
  each empty candidate, then a contains entry with score 0.9 for each non-empty
  candidate, each group in the order of the input. No entry is a fuzzy one. This holds
  for every case map that gives the empty string for the empty string and for no other
  string, as \<open>lower\<close> does.
\<close>

theorem fuzzy_match_empty_query:
  assumes "to_lower [] = []"
    and "\<And>s. to_lower s = [] \<Longrightarrow> s = []"
  shows "fuzzy_match to_lower ratio [] options threshold =
     map (\<lambda>c. \<lparr>name = c, score = 1, match_type = ''exact''\<rparr>) [c \<leftarrow> options. c = []]
     @ map (\<lambda>c. \<lparr>name = c, score = 9 / 10, match_type = ''contains''\<rparr>) [c \<leftarrow> options. c \<noteq> []]"
proof -
  let ?f = "\<lambda>c. if c = [] then \<lparr>name = c, score = 1, match_type = ''exact''\<rparr>
                 else \<lparr>name = c, score = 9 / 10, match_type = ''contains''\<rparr>"
  have unsorted: "fuzzy_match to_lower ratio [] options threshold
                    = sort_reverse score (map ?f options)"
  proof -
    have "match_option to_lower ratio [] threshold = (\<lambda>c. Some (?f c))"
      by (rule ext) (simp add: match_option_empty_query [of to_lower, OF assms])
    then show ?thesis
      by (simp add: fuzzy_match_unsorted assms(1) map_filter_Some)
  qed
  have keys: "\<forall>m \<in> set (map ?f options). score m = 1 \<or> score m = 9 / 10"
    by auto
  have "sort_reverse score (map ?f options)
      = filter (\<lambda>m. score m = 1) (map ?f options) @ filter (\<lambda>m. score m = 9 / 10) (map ?f options)"
    using keys by (rule sort_reverse_two_keys) simp
  moreover have "filter (\<lambda>m. score m = 1) (map ?f options)
      = map (\<lambda>c. \<lparr>name = c, score = 1, match_type = ''exact''\<rparr>) [c \<leftarrow> options. c = []]"
    by (induction options) simp_all
  moreover have "filter (\<lambda>m. score m = 9 / 10) (map ?f options)
      = map (\<lambda>c. \<lparr>name = c, score = 9 / 10, match_type = ''contains''\<rparr>) [c \<leftarrow> options. c \<noteq> []]"
    by (induction options) simp_all
  ultimately show ?thesis
    using unsorted by simp
qed

theorem fuzzy_match_empty_query_witness:
  "fuzzy_match str_lower (const_ratio 0) '''' [''Sales'', '''', ''Tax''] (6 / 10)
     = [\<lparr>name = '''', score = 1, match_type = ''exact''\<rparr>,
        \<lparr>name = ''Sales'', score = 9 / 10, match_type = ''contains''\<rparr>,
        \<lparr>name = ''Tax'', score = 9 / 10, match_type = ''contains''\<rparr>]"
proof -
  have empty: "str_lower [] = []"
    and only: "\<And>s. str_lower s = [] \<Longrightarrow> s = []"
    by (simp_all add: str_lower_def)
  from fuzzy_match_empty_query
         [of str_lower "const_ratio 0" "[''Sales'', '''', ''Tax'']" "6 / 10"] empty only
  show ?thesis by simp
qed

text \<open>
  Claim C1 as stated fails: for the empty query and the non-empty candidate list
  \<open>["Sales"]\<close>, which has no empty candidate, the result is not empty and holds a
  contains entry for the non-empty candidate.
\<close>

theorem fuzzy_match_empty_query_counterexample:
  "[''Sales''] \<noteq> [] \<and> '''' \<notin> set [''Sales'']
   \<and> fuzzy_match str_lower (const_ratio 0) '''' [''Sales''] (6 / 10)
       = [\<lparr>name = ''Sales'', score = 9 / 10, match_type = ''contains''\<rparr>]
   \<and> fuzzy_match str_lower (const_ratio 0) '''' [''Sales''] (6 / 10) \<noteq> []"
  by (simp add: fuzzy_eval str_eval)

text \<open>
  Claim C3, as amended. For all strings \<open>q\<close> and \<open>c\<close> whose lower-cased forms
  \<open>lower(q)\<close> and \<open>lower(c)\<close> differ and of which one lower-cased form occurs in the
  other, the result for the query \<open>q\<close> and the single candidate \<open>c\<close> is the one entry
  for \<open>c\<close> with match type contains and score 0.9. This holds for every case map, so for
  \<open>lower\<close> on all text, and for every similarity measure and threshold. The condition
  is on the lower-cased forms: that \<open>q\<close> occurs in \<open>c\<close> says nothing of them where
  the lower case of a character depends on its place in the string.
\<close>

theorem fuzzy_match_contains:
  assumes "to_lower q \<noteq> to_lower c"
    and "sublist (to_lower q) (to_lower c) \<or> sublist (to_lower c) (to_lower q)"
  shows "fuzzy_match to_lower ratio q [c] threshold
           = [\<lparr>name = c, score = 9 / 10, match_type = ''contains''\<rparr>]"
proof -
  from assms have "match_option to_lower ratio (to_lower q) threshold c
      = Some \<lparr>name = c, score = 9 / 10, match_type = ''contains''\<rparr>"
    by (simp add: match_option_def str_in_sublist)
  then show ?thesis
    by (simp add: fuzzy_match_def sort_reverse_def)
qed

theorem fuzzy_match_contains_witness:
  "str_lower ''sale'' \<noteq> str_lower ''Sales''
   \<and> sublist (str_lower ''sale'') (str_lower ''Sales'')
   \<and> fuzzy_match str_lower (const_ratio 0) ''sale'' [''Sales''] (6 / 10)
       = [\<lparr>name = ''Sales'', score = 9 / 10, match_type = ''contains''\<rparr>]
   \<and> str_lower ''Total Sales Amount'' \<noteq> str_lower ''SALES''
   \<and> sublist (str_lower ''SALES'') (str_lower ''Total Sales Amount'')
   \<and> fuzzy_match str_lower (const_ratio 0) ''Total Sales Amount'' [''SALES''] (6 / 10)
       = [\<lparr>name = ''SALES'', score = 9 / 10, match_type = ''contains''\<rparr>]"
proof -
  have a: "str_lower ''sale'' \<noteq> str_lower ''Sales''"
    and b: "sublist (str_lower ''sale'') (str_lower ''Sales'')"
    and c: "str_lower ''Total Sales Amount'' \<noteq> str_lower ''SALES''"
    and d: "sublist (str_lower ''SALES'') (str_lower ''Total Sales Amount'')"
    by (simp_all add: str_eval str_in_sublist [symmetric])
  from fuzzy_match_contains [of str_lower "''sale''" "''Sales''" "const_ratio 0" "6 / 10"] a b
  have e: "fuzzy_match str_lower (const_ratio 0) ''sale'' [''Sales''] (6 / 10)
       = [\<lparr>name = ''Sales'', score = 9 / 10, match_type = ''contains''\<rparr>]"
    by blast
  from fuzzy_match_contains [of str_lower "''Total Sales Amount''" "''SALES''" "const_ratio 0" "6 / 10"] c d
  have f: "fuzzy_match str_lower (const_ratio 0) ''Total Sales Amount'' [''SALES''] (6 / 10)
       = [\<lparr>name = ''SALES'', score = 9 / 10, match_type = ''contains''\<rparr>]"
    by blast
  from a b c d e f show ?thesis by blast
qed

text \<open>
  Claim C3 as stated fails: \<open>"sale"\<close> and \<open>"Sale"\<close> are different strings and the first
  occurs in the second when case is ignored, and the result is the exact entry with
  score 1, with no contains entry.
\<close>

theorem fuzzy_match_contains_counterexample:
  "''sale'' \<noteq> ''Sale''
   \<and> sublist (str_lower ''sale'') (str_lower ''Sale'')
   \<and> fuzzy_match str_lower (const_ratio 0) ''sale'' [''Sale''] (6 / 10)
       = [\<lparr>name = ''Sale'', score = 1, match_type = ''exact''\<rparr>]
   \<and> \<lparr>name = ''Sale'', score = 9 / 10, match_type = ''contains''\<rparr>
       \<notin> set (fuzzy_match str_lower (const_ratio 0) ''sale'' [''Sale''] (6 / 10))"
  by (simp add: fuzzy_eval str_eval str_in_sublist [symmetric])

section \<open>Properties of \<open>detect_user_intent\<close>\<close>

lemma any_in_iff: "any_in ws s \<longleftrightarrow> (\<exists>w \<in> set ws. sublist w s)"
  by (simp add: any_in_def list_ex_iff str_in_sublist)

text \<open>
  Claim C6. For every utterance, the lower-cased utterance is tested against the four
  keyword lists in the order show, create, update, delete, and the intent is that of
  the first list with a keyword that occurs in it: show whenever a show keyword occurs
  (also when a create keyword occurs too), create when a create keyword and no show
  keyword occurs, and so on; unknown when no keyword of any list occurs.
\<close>

theorem detect_user_intent_priority:
  "((\<exists>w \<in> set show_keywords. sublist w (to_lower u)) \<longrightarrow> detect_user_intent to_lower u = ''show'')
   \<and> (\<not> (\<exists>w \<in> set show_keywords. sublist w (to_lower u))
        \<and> (\<exists>w \<in> set create_keywords. sublist w (to_lower u))
      \<longrightarrow> detect_user_intent to_lower u = ''create'')
   \<and> (\<not> (\<exists>w \<in> set (show_keywords @ create_keywords). sublist w (to_lower u))
        \<and> (\<exists>w \<in> set update_keywords. sublist w (to_lower u))
      \<longrightarrow> detect_user_intent to_lower u = ''update'')
   \<and> (\<not> (\<exists>w \<in> set (show_keywords @ create_keywords @ update_keywords). sublist w (to_lower u))
        \<and> (\<exists>w \<in> set delete_keywords. sublist w (to_lower u))
      \<longrightarrow> detect_user_intent to_lower u = ''delete'')
   \<and> (\<not> (\<exists>w \<in> set (show_keywords @ create_keywords @ update_keywords @ delete_keywords).
             sublist w (to_lower u))
      \<longrightarrow> detect_user_intent to_lower u = ''unknown'')"
  unfolding detect_user_intent_def Let_def any_in_iff by auto

lemmas intent_eval =
  detect_user_intent_def show_keywords_def create_keywords_def update_keywords_def
  delete_keywords_def

theorem detect_user_intent_priority_witness:
  "(\<exists>w \<in> set show_keywords. sublist w (str_lower ''Show me how to create a measure''))
   \<and> (\<exists>w \<in> set create_keywords. sublist w (str_lower ''Show me how to create a measure''))
   \<and> detect_user_intent str_lower ''Show me how to create a measure'' = ''show''
   \<and> \<not> (\<exists>w \<in> set show_keywords. sublist w (str_lower ''create a measure for profit''))
   \<and> (\<exists>w \<in> set create_keywords. sublist w (str_lower ''create a measure for profit''))
   \<and> detect_user_intent str_lower ''create a measure for profit'' = ''create''
   \<and> \<not> (\<exists>w \<in> set (show_keywords @ create_keywords). sublist w (str_lower ''Modify it''))
   \<and> (\<exists>w \<in> set update_keywords. sublist w (str_lower ''Modify it''))
   \<and> detect_user_intent str_lower ''Modify it'' = ''update''
   \<and> \<not> (\<exists>w \<in> set (show_keywords @ create_keywords @ update_keywords). sublist w (str_lower ''drop it''))
   \<and> (\<exists>w \<in> set delete_keywords. sublist w (str_lower ''drop it''))
   \<and> detect_user_intent str_lower ''drop it'' = ''delete''
   \<and> \<not> (\<exists>w \<in> set (show_keywords @ create_keywords @ update_keywords @ delete_keywords).
            sublist w (str_lower ''xyz''))
   \<and> detect_user_intent str_lower ''xyz'' = ''unknown''"
proof -
  have s1: "\<exists>w \<in> set show_keywords. sublist w (str_lower ''Show me how to create a measure'')"
    and s2: "\<exists>w \<in> set create_keywords. sublist w (str_lower ''Show me how to create a measure'')"
    by (simp_all add: str_in_sublist [symmetric] str_eval intent_eval)
  have c1: "\<not> (\<exists>w \<in> set show_keywords. sublist w (str_lower ''create a measure for profit''))"
    and c2: "\<exists>w \<in> set create_keywords. sublist w (str_lower ''create a measure for profit'')"
    by (simp_all add: str_in_sublist [symmetric] str_eval intent_eval)
  have u1: "\<not> (\<exists>w \<in> set (show_keywords @ create_keywords). sublist w (str_lower ''Modify it''))"
    and u2: "\<exists>w \<in> set update_keywords. sublist w (str_lower ''Modify it'')"
    by (simp_all add: str_in_sublist [symmetric] str_eval intent_eval)
  have d1: "\<not> (\<exists>w \<in> set (show_keywords @ create_keywords @ update_keywords). sublist w (str_lower ''drop it''))"
    and d2: "\<exists>w \<in> set delete_keywords. sublist w (str_lower ''drop it'')"
    by (simp_all add: str_in_sublist [symmetric] str_eval intent_eval)
  have n1: "\<not> (\<exists>w \<in> set (show_keywords @ create_keywords @ update_keywords @ delete_keywords).
            sublist w (str_lower ''xyz''))"
    by (simp add: str_in_sublist [symmetric] str_eval intent_eval)
  from detect_user_intent_priority [of str_lower "''Show me how to create a measure''"] s1
  have s: "detect_user_intent str_lower ''Show me how to create a measure'' = ''show''" by blast
  from detect_user_intent_priority [of str_lower "''create a measure for profit''"] c1 c2
  have c: "detect_user_intent str_lower ''create a measure for profit'' = ''create''" by blast
  from detect_user_intent_priority [of str_lower "''Modify it''"] u1 u2
  have u: "detect_user_intent str_lower ''Modify it'' = ''update''" by blast
  from detect_user_intent_priority [of str_lower "''drop it''"] d1 d2
  have d: "detect_user_intent str_lower ''drop it'' = ''delete''" by blast
  from detect_user_intent_priority [of str_lower "''xyz''"] n1
  have n: "detect_user_intent str_lower ''xyz'' = ''unknown''" by blast
  from s1 s2 s c1 c2 c u1 u2 u d1 d2 d n1 n show ?thesis by blast
qed

section \<open>Properties of \<open>parse_measure_request\<close>\<close>

lemmas parse_eval =
  parse_measure_request_def detect_operation_def match_here_def is_word_char_def
  is_ident_start_def

text \<open>The operation comes from the lower-cased input alone, the names from the pattern alone.\<close>

lemma parse_measure_request_fields:
  "operation (parse_measure_request to_lower u) = detect_operation (to_lower u)
   \<and> has_explicit_syntax (parse_measure_request to_lower u) = (re_search u \<noteq> None)
   \<and> (table (parse_measure_request to_lower u) \<noteq> None) = has_explicit_syntax (parse_measure_request to_lower u)
   \<and> (column (parse_measure_request to_lower u) \<noteq> None) = has_explicit_syntax (parse_measure_request to_lower u)"
  by (auto simp: parse_measure_request_def Let_def)

text \<open>
  Claim C7. The operation and the explicit \<open>Table[Column]\<close> syntax are found
  independently of each other: \<open>"total sales"\<close> has the operation SUM and no explicit
  syntax, \<open>"show Sales[Amount]"\<close> has the table and the column and no operation,
  \<open>"average Sales[Amount]"\<close> has the operation AVERAGE and the table and the column,
  and \<open>"hello"\<close> has neither.
\<close>

theorem parse_measure_request_independent:
  "parse_measure_request str_lower ''total sales''
     = \<lparr>operation = Some ''SUM'', table = None, column = None, has_explicit_syntax = False\<rparr>
   \<and> parse_measure_request str_lower ''show Sales[Amount]''
     = \<lparr>operation = None, table = Some ''Sales'', column = Some ''Amount'',
        has_explicit_syntax = True\<rparr>
   \<and> parse_measure_request str_lower ''average Sales[Amount]''
     = \<lparr>operation = Some ''AVERAGE'', table = Some ''Sales'', column = Some ''Amount'',
        has_explicit_syntax = True\<rparr>
   \<and> parse_measure_request str_lower ''hello''
     = \<lparr>operation = None, table = None, column = None, has_explicit_syntax = False\<rparr>"
proof -
  have a: "parse_measure_request str_lower ''total sales''
     = \<lparr>operation = Some ''SUM'', table = None, column = None, has_explicit_syntax = False\<rparr>"
    by (simp add: parse_eval str_eval)
  have b: "parse_measure_request str_lower ''show Sales[Amount]''
     = \<lparr>operation = None, table = Some ''Sales'', column = Some ''Amount'',
        has_explicit_syntax = True\<rparr>"
    by (simp add: parse_eval str_eval)
  have c: "parse_measure_request str_lower ''average Sales[Amount]''
     = \<lparr>operation = Some ''AVERAGE'', table = Some ''Sales'', column = Some ''Amount'',
        has_explicit_syntax = True\<rparr>"
    by (simp add: parse_eval str_eval)
  have d: "parse_measure_request str_lower ''hello''
     = \<lparr>operation = None, table = None, column = None, has_explicit_syntax = False\<rparr>"
    by (simp add: parse_eval str_eval)
  from a b c d show ?thesis by blast
qed

section \<open>Properties of \<open>search_tables_and_columns\<close>\<close>

lemma fetch_schema_matches:
  "table_matches (fetch_schema t r) = table_matches r"
  "column_matches (fetch_schema t r) = column_matches r"
  by (simp_all add: fetch_schema_def Let_def split: sum.splits schema_result.splits option.splits)

lemma fetch_schema_failure: "ainvoke t = Inl e \<Longrightarrow> fetch_schema t r = r"
  by (simp add: fetch_schema_def)

text \<open>
  Claim C8. For every outcome of the tool discovery and of the schema tool, and for
  all queries, the search returns a result and raises nothing. When the tool discovery
  fails the result is the empty one (no tables, columns or matches). When the call of
  the selected schema tool fails the result has no tables and no columns. The table
  matches are those of \<open>fuzzy_match\<close> on the tables when a non-empty query is given and
  the table list is not empty, and empty otherwise, so they are empty whenever the
  table list is; the same holds for the columns.
\<close>

theorem search_tables_and_columns_degrades:
  "\<exists>r. search_tables_and_columns to_lower ratio load table_query column_query = Inr r
     \<and> (isl load \<longrightarrow> r = empty_result)
     \<and> (\<forall>tools t. load = Inr tools \<and> find_list_tool to_lower tools = Some t \<and> isl (ainvoke t)
           \<longrightarrow> tables r = [] \<and> columns r = [])
     \<and> table_matches r =
         (case table_query of
            None \<Rightarrow> []
          | Some q \<Rightarrow> if q \<noteq> [] \<and> tables r \<noteq> []
                      then fuzzy_match_default to_lower ratio q (tables r) else [])
     \<and> column_matches r =
         (case column_query of
            None \<Rightarrow> []
          | Some q \<Rightarrow> if q \<noteq> [] \<and> columns r \<noteq> []
                      then fuzzy_match_default to_lower ratio q (columns r) else [])
     \<and> (tables r = [] \<longrightarrow> table_matches r = [])
     \<and> (columns r = [] \<longrightarrow> column_matches r = [])"
proof (cases load)
  case (Inl e)
  then show ?thesis
    by (simp add: search_tables_and_columns_def empty_result_def split: option.splits)
next
  case (Inr tools)
  define r0 where "r0 = (case find_list_tool to_lower tools of
                           None \<Rightarrow> empty_result
                         | Some list_tool \<Rightarrow> fetch_schema list_tool empty_result)"
  have m0: "table_matches r0 = []" "column_matches r0 = []"
    by (simp_all add: r0_def fetch_schema_matches empty_result_def split: option.splits)
  have fail: "\<forall>t. find_list_tool to_lower tools = Some t \<and> isl (ainvoke t) \<longrightarrow> tables r0 = [] \<and> columns r0 = []"
    by (auto simp: r0_def isl_def fetch_schema_failure empty_result_def)
  show ?thesis
    using Inr m0 fail
    by (simp add: search_tables_and_columns_def Let_def r0_def [symmetric] split: option.splits)
qed

lemmas search_eval =
  search_tables_and_columns_def empty_result_def find_list_tool_def fetch_schema_def
  schema_keywords_def

theorem search_tables_and_columns_degrades_witness:
  "search_tables_and_columns str_lower (const_ratio 0) (Inl ''connection lost'') (Some ''sale'') (Some ''amount'')
     = Inr empty_result
   \<and> search_tables_and_columns str_lower (const_ratio 0)
       (Inr [\<lparr>tool_name = ''List_Tables'', ainvoke = Inl ''timeout''\<rparr>]) (Some ''sale'') (Some ''amount'')
     = Inr empty_result
   \<and> search_tables_and_columns str_lower (const_ratio 0)
       (Inr [\<lparr>tool_name = ''run_dax'', ainvoke = Inl ''no query''\<rparr>,
             \<lparr>tool_name = ''get_schema'', ainvoke = Inr (SchemaDict None (Some [''Amount'']))\<rparr>])
       (Some ''sale'') (Some ''amount'')
     = Inr \<lparr>tables = [], columns = [''Amount''], table_matches = [],
            column_matches = [\<lparr>name = ''Amount'', score = 1, match_type = ''exact''\<rparr>]\<rparr>"
proof -
  have lost: "isl (Inl ''connection lost'' :: string + tool list)"
    by simp
  from search_tables_and_columns_degrades
         [of str_lower "const_ratio 0" "Inl ''connection lost''" "Some ''sale''" "Some ''amount''"] lost
  have a: "search_tables_and_columns str_lower (const_ratio 0) (Inl ''connection lost'') (Some ''sale'')
             (Some ''amount'') = Inr empty_result"
    by blast
  have t: "find_list_tool str_lower [\<lparr>tool_name = ''List_Tables'', ainvoke = Inl ''timeout''\<rparr>]
             = Some \<lparr>tool_name = ''List_Tables'', ainvoke = Inl ''timeout''\<rparr>"
    by (simp add: find_list_tool_def schema_keywords_def str_eval)
  have b: "search_tables_and_columns str_lower (const_ratio 0)
       (Inr [\<lparr>tool_name = ''List_Tables'', ainvoke = Inl ''timeout''\<rparr>]) (Some ''sale'') (Some ''amount'')
     = Inr empty_result"
    by (simp add: search_tables_and_columns_def t fetch_schema_def empty_result_def)
  have u: "find_list_tool str_lower [\<lparr>tool_name = ''run_dax'', ainvoke = Inl ''no query''\<rparr>,
             \<lparr>tool_name = ''get_schema'', ainvoke = Inr (SchemaDict None (Some [''Amount'']))\<rparr>]
             = Some \<lparr>tool_name = ''get_schema'', ainvoke = Inr (SchemaDict None (Some [''Amount'']))\<rparr>"
    by (simp add: find_list_tool_def schema_keywords_def str_eval)
  have m: "fuzzy_match_default str_lower (const_ratio 0) ''amount'' [''Amount'']
             = [\<lparr>name = ''Amount'', score = 1, match_type = ''exact''\<rparr>]"
    by (simp add: fuzzy_eval str_eval)
  have c: "search_tables_and_columns str_lower (const_ratio 0)
       (Inr [\<lparr>tool_name = ''run_dax'', ainvoke = Inl ''no query''\<rparr>,
             \<lparr>tool_name = ''get_schema'', ainvoke = Inr (SchemaDict None (Some [''Amount'']))\<rparr>])
       (Some ''sale'') (Some ''amount'')
     = Inr \<lparr>tables = [], columns = [''Amount''], table_matches = [],
            column_matches = [\<lparr>name = ''Amount'', score = 1, match_type = ''exact''\<rparr>]\<rparr>"
    by (simp add: search_tables_and_columns_def u m fetch_schema_def empty_result_def)
  from a b c show ?thesis by blast
qed

section \<open>Properties of \<open>run_agent_once\<close>\<close>

text \<open>
  Claim C9. For every exception the agent's invocation raises, the answer is chosen by
  the lower-cased text of the exception, in this order: the not-found message when
  \<open>not found\<close> or \<open>does not exist\<close> occurs in it; otherwise the DAX-syntax message when
  \<open>syntax\<close> occurs in it; otherwise the too-long message when \<open>context\<close> or \<open>token\<close>
  occurs in it; otherwise the failure mark, \<open>Error:\<close> and the text of the exception as
  it was raised. The first three messages are fixed texts, so only the last answer
  shows the text of the exception.
\<close>

theorem run_agent_once_error_categories:
  assumes "agent (enhanced_input to_lower user_input) = Inl e"
  shows "run_agent_once to_lower agent user_input =
     (if sublist ''not found'' (to_lower e) \<or> sublist ''does not exist'' (to_lower e)
      then cross_mark @ '' Table/column not found. Please verify the exact name in your Power BI model.''
      else if sublist ''syntax'' (to_lower e)
      then cross_mark @ '' DAX syntax error. Please check the formula.''
      else if sublist ''context'' (to_lower e) \<or> sublist ''token'' (to_lower e)
      then cross_mark @ '' Request too long. Please simplify or break into smaller parts.''
      else cross_mark @ '' Error: '' @ e)"
  using assms
  by (simp add: run_agent_once_def handle_exception_def Let_def str_in_sublist
        not_found_message_def syntax_message_def too_long_message_def)

lemmas error_eval =
  handle_exception_def not_found_message_def syntax_message_def too_long_message_def

theorem run_agent_once_error_categories_witness:
  "run_agent_once str_lower (failing_agent ''Syntax error: column Not Found'') ''show sales''
     = cross_mark @ '' Table/column not found. Please verify the exact name in your Power BI model.''
   \<and> run_agent_once str_lower (failing_agent ''Table Sales Does Not Exist'') ''show sales''
     = cross_mark @ '' Table/column not found. Please verify the exact name in your Power BI model.''
   \<and> run_agent_once str_lower (failing_agent ''Syntax error near token'') ''show sales''
     = cross_mark @ '' DAX syntax error. Please check the formula.''
   \<and> run_agent_once str_lower (failing_agent ''Maximum Context length exceeded'') ''show sales''
     = cross_mark @ '' Request too long. Please simplify or break into smaller parts.''
   \<and> run_agent_once str_lower (failing_agent ''Too many Tokens'') ''show sales''
     = cross_mark @ '' Request too long. Please simplify or break into smaller parts.''
   \<and> run_agent_once str_lower (failing_agent ''Connection Refused'') ''show sales''
     = cross_mark @ '' Error: Connection Refused''"
proof -
  have raised: "\<And>x. failing_agent x (enhanced_input str_lower ''show sales'') = Inl x"
    by (simp add: failing_agent_def)
  have cat: "\<And>x. run_agent_once str_lower (failing_agent x) ''show sales'' =
     (if str_in ''not found'' (str_lower x) \<or> str_in ''does not exist'' (str_lower x)
      then cross_mark @ '' Table/column not found. Please verify the exact name in your Power BI model.''
      else if str_in ''syntax'' (str_lower x)
      then cross_mark @ '' DAX syntax error. Please check the formula.''
      else if str_in ''context'' (str_lower x) \<or> str_in ''token'' (str_lower x)
      then cross_mark @ '' Request too long. Please simplify or break into smaller parts.''
      else cross_mark @ '' Error: '' @ x)"
    using run_agent_once_error_categories
            [of "failing_agent x" str_lower "''show sales''" x for x] raised
    by (simp only: str_in_sublist)
  have a: "run_agent_once str_lower (failing_agent ''Syntax error: column Not Found'') ''show sales''
     = cross_mark @ '' Table/column not found. Please verify the exact name in your Power BI model.''"
    by (simp add: cat str_eval)
  have b: "run_agent_once str_lower (failing_agent ''Table Sales Does Not Exist'') ''show sales''
     = cross_mark @ '' Table/column not found. Please verify the exact name in your Power BI model.''"
    by (simp add: cat str_eval)
  have c: "run_agent_once str_lower (failing_agent ''Syntax error near token'') ''show sales''
     = cross_mark @ '' DAX syntax error. Please check the formula.''"
    by (simp add: cat str_eval)
  have d: "run_agent_once str_lower (failing_agent ''Maximum Context length exceeded'') ''show sales''
     = cross_mark @ '' Request too long. Please simplify or break into smaller parts.''"
    by (simp add: cat str_eval)
  have e: "run_agent_once str_lower (failing_agent ''Too many Tokens'') ''show sales''
     = cross_mark @ '' Request too long. Please simplify or break into smaller parts.''"
    by (simp add: cat str_eval)
  have f: "run_agent_once str_lower (failing_agent ''Connection Refused'') ''show sales''
     = cross_mark @ '' Error: Connection Refused''"
    by (simp add: cat str_eval)
  from a b c d e f show ?thesis by blast
qed

text \<open>With no message of an assistant class the answer is the fallback on the last message.\<close>

lemma scan_messages_no_assistant:
  "\<forall>m \<in> set msgs. type_name m \<noteq> ''AIMessage'' \<and> type_name m \<noteq> ''AssistantMessage''
   \<Longrightarrow> scan_messages hints msgs = None"
  by (induction msgs) simp_all

lemma extract_response_no_assistant:
  assumes "all_messages \<noteq> []"
    and "\<forall>m \<in> set all_messages. type_name m \<noteq> ''AIMessage'' \<and> type_name m \<noteq> ''AssistantMessage''"
  shows "extract_response hints all_messages = Inr (fallback (last all_messages))"
  using assms by (simp add: extract_response_def scan_messages_no_assistant)

text \<open>The hint tags of the request \<open>"show sales"\<close>.\<close>

lemmas hints_eval =
  build_hints_def enhanced_input_def intent_eval parse_eval newline_def

lemma build_hints_show_sales:
  "build_hints str_lower ''show sales''
     = [''[Intent: SHOW]'', ''[Search for table/column names before asking user]'']"
  by (simp add: hints_eval str_eval)

text \<open>
  Claim C2, at the request \<open>"show sales"\<close> with an agent that returns the human message
  alone. No message is the assistant's, so the answer is the fallback's: the content
  of the last message as it is, with both hint tags in it. Cleaning the hint tags from
  it and trimming, as the assistant branch does with its text, gives \<open>"show sales"\<close>.
\<close>

theorem run_agent_once_fallback_keeps_hints:
  "run_agent_once str_lower echo_agent ''show sales''
     = ''show sales'' @ newline
         @ ''[Intent: SHOW] [Search for table/column names before asking user]''
   \<and> str_strip (clean_hints (build_hints str_lower ''show sales'') (enhanced_input str_lower ''show sales''))
     = ''show sales''"
proof -
  have enh: "enhanced_input str_lower ''show sales'' = ''show sales'' @ newline
         @ ''[Intent: SHOW] [Search for table/column names before asking user]''"
    by (simp add: enhanced_input_def build_hints_show_sales)
  have ne: "str_strip (enhanced_input str_lower ''show sales'') \<noteq> []"
    by (simp add: enh newline_def str_strip_def is_space_def)
  have run: "run_agent_once str_lower echo_agent ''show sales'' = enhanced_input str_lower ''show sales''"
    using ne by (simp add: run_agent_once_def echo_agent_def extract_response_def fallback_def)
  have clean: "str_strip (clean_hints (build_hints str_lower ''show sales'') (enhanced_input str_lower ''show sales''))
     = ''show sales''"
    by (simp add: enh build_hints_show_sales clean_hints_def str_replace_def newline_def
          str_strip_def is_space_def)
  from run enh clean show ?thesis by simp
qed

end
